theory Spec2Isabelle
  imports
    Complex_Main
    "HOL-Library.Char_ord"
    "HOL-Library.List_Lexorder"
    "HOL-Library.Multiset"
    "HOL-Library.Product_Lexorder"
begin

section \<open>The SMQTK IQR resource of image\_space: sessions, refine and ranked results\<close>

text \<open>
  The development embeds \<^verbatim>\<open>src/imagespace_smqtk/server/smqtk_iqr.py\<close>: the
  class \<^verbatim>\<open>SmqtkIqr\<close> with its methods \<^verbatim>\<open>_refine\<close>, \<^verbatim>\<open>refine\<close> and
  \<^verbatim>\<open>results\<close> (with the nested \<^verbatim>\<open>sid_exists\<close>). Every exception the Python can
  raise is a value \<open>Inl e\<close>; every effect (a request sent to the ranking engine, a line
  written by \<^verbatim>\<open>logger.error\<close>) is a change of an explicit world.
\<close>

subsection \<open>Exceptions and effects\<close>

datatype error = KeyError | IndexError | ValueError | RequestException

text \<open>
  An action takes the world and returns either the exception raised or the value, and the
  world as it is then. An exception leaves the effects done before it in place.
\<close>

type_synonym ('s, 'a) act = "'s \<Rightarrow> (error + 'a) \<times> 's"

definition ret :: "'a \<Rightarrow> ('s, 'a) act" where
  "ret x w = (Inr x, w)"

definition lift :: "error + 'a \<Rightarrow> ('s, 'a) act" where
  "lift r w = (r, w)"

definition andthen :: "('s, 'a) act \<Rightarrow> ('a \<Rightarrow> ('s, 'b) act) \<Rightarrow> ('s, 'b) act" where
  "andthen m f w = (case m w of (Inl e, w') \<Rightarrow> (Inl e, w') | (Inr x, w') \<Rightarrow> f x w')"

text \<open>Python's \<^verbatim>\<open>d[k]\<close> on a dict: \<^verbatim>\<open>KeyError\<close> when the key is absent.\<close>

definition getitem :: "('k \<rightharpoonup> 'v) \<Rightarrow> 'k \<Rightarrow> error + 'v" where
  "getitem d k = (case d k of None \<Rightarrow> Inl KeyError | Some v \<Rightarrow> Inr v)"

subsection \<open>Data\<close>

text \<open>
  A JSON value, as \<^verbatim>\<open>getBodyJson()\<close> gives it and as Girder keeps it in an item's
  \<^verbatim>\<open>meta\<close>. The code passes such values on untouched.
\<close>

datatype json =
  JNull | JBool bool | JNum real | JStr string | JArr "json list" | JObj "(string \<times> json) list"

text \<open>
  A Solr document. Its field \<^verbatim>\<open>sha1sum_s_md\<close> is a string or a list of strings
  (\<^verbatim>\<open>isinstance(document['sha1sum_s_md'], list)\<close>); \<^verbatim>\<open>smqtk_iqr_confidence\<close> is the
  key that \<^verbatim>\<open>results\<close> sets; \<open>doc_id\<close> stands for the document's other fields, which
  the code never reads. A confidence is a finite number, of which the code uses the
  order and the equality only.
\<close>

datatype checksum_field = Single string | Multi "string list"

record document =
  doc_id :: string
  sha1sum_s_md :: checksum_field
  smqtk_iqr_confidence :: "real option"

text \<open>
  The decoded body of \<^verbatim>\<open>GET /get_results\<close>, a JSON object: each of its two keys is
  present or absent. \<open>results_field\<close> is the key \<^verbatim>\<open>'results'\<close>, a list of
  (checksum, confidence) pairs.
\<close>

record results_resp =
  total_results :: "int option"
  results_field :: "(string \<times> real) list option"

text \<open>What \<^verbatim>\<open>results\<close> returns: the dict with the keys \<^verbatim>\<open>numFound\<close> and \<^verbatim>\<open>docs\<close>.\<close>

record page =
  numFound :: int
  docs :: "document list"

text \<open>A Girder item of the sessions folder; \<open>meta\<close> is its metadata dict.\<close>

record item =
  name :: string
  meta :: "string \<rightharpoonup> json"

text \<open>
  A request sent to the ranking engine at \<^verbatim>\<open>search_url\<close>, with the data it carries:
  \<^verbatim>\<open>POST /session\<close> (sid), \<^verbatim>\<open>PUT /refine\<close> (sid, pos\_uuids, neg\_uuids; the model
  carries the values that \<^verbatim>\<open>json.dumps\<close> encodes) and \<^verbatim>\<open>GET /get_results\<close>
  (sid, i, j).
\<close>

datatype request =
  PostSession json
| PutRefine json json json
| GetResults string int int

text \<open>
  The world: the state of the ranking engine (of any type \<open>'e\<close>), the requests sent to
  it so far (oldest first), the items of the sessions folder, and the lines written by
  \<^verbatim>\<open>logger.error\<close> (oldest first).
\<close>

record 'e world =
  engine :: 'e
  sent :: "request list"
  items :: "item list"
  errlog :: "string list"

text \<open>
  What the code calls and this file does not define, taken as parameters:
  \<^item> \<open>env_int\<close>: Python's \<^verbatim>\<open>int\<close> on a query-string value (\<^verbatim>\<open>ValueError\<close> when
    the string is no integer);
  \<^item> \<open>post_session\<close>: \<^verbatim>\<open>requests.post(search_url + '/session', data={'sid': sid})\<close>,
    giving the response's \<^verbatim>\<open>ok\<close> (in \<^verbatim>\<open>requests\<close>, true unless the status is from
    400 to 599), or the exception of \<^verbatim>\<open>requests\<close>;
  \<^item> \<open>put_refine\<close>: \<^verbatim>\<open>requests.put(search_url + '/refine', ...).json()\<close>;
  \<^item> \<open>get_results\<close>: \<^verbatim>\<open>requests.get(search_url + '/get_results', ...).json()\<close>;
  \<^item> \<open>solr_documents_from_field\<close>: the function of that name of the imagespace plugin,
    from a field name and the values looked for to the documents found.
\<close>

record 'e env =
  env_int :: "string \<Rightarrow> error + int"
  post_session :: "'e \<Rightarrow> json \<Rightarrow> (error + bool) \<times> 'e"
  put_refine :: "'e \<Rightarrow> json \<Rightarrow> json \<Rightarrow> json \<Rightarrow> (error + json) \<times> 'e"
  get_results :: "'e \<Rightarrow> string \<Rightarrow> int \<Rightarrow> int \<Rightarrow> (error + results_resp) \<times> 'e"
  solr_documents_from_field :: "string \<Rightarrow> string list \<Rightarrow> error + document list"

subsection \<open>Requests, the item model and the logger\<close>

definition http_post_session :: "'e env \<Rightarrow> json \<Rightarrow> ('e world, bool) act" where
  "http_post_session env sid w =
     (case post_session env (engine w) sid of
        (r, e') \<Rightarrow> (r, w\<lparr>engine := e', sent := sent w @ [PostSession sid]\<rparr>))"

definition http_put_refine :: "'e env \<Rightarrow> json \<Rightarrow> json \<Rightarrow> json \<Rightarrow> ('e world, json) act" where
  "http_put_refine env sid pos neg w =
     (case put_refine env (engine w) sid pos neg of
        (r, e') \<Rightarrow> (r, w\<lparr>engine := e', sent := sent w @ [PutRefine sid pos neg]\<rparr>))"

definition http_get_results :: "'e env \<Rightarrow> string \<Rightarrow> int \<Rightarrow> int \<Rightarrow> ('e world, results_resp) act" where
  "http_get_results env sid i j w =
     (case get_results env (engine w) sid i j of
        (r, e') \<Rightarrow> (r, w\<lparr>engine := e', sent := sent w @ [GetResults sid i j]\<rparr>))"

text \<open>
  \<^verbatim>\<open>self.model('item').findOne({'meta.sid': sid})\<close>: the first item whose metadata has
  that sid, or \<^verbatim>\<open>None\<close>.
\<close>

definition findOne :: "string \<Rightarrow> ('e world, item option) act" where
  "findOne sid w = (Inr (find (\<lambda>it. meta it ''sid'' = Some (JStr sid)) (items w)), w)"

definition logger_error :: "string \<Rightarrow> ('e world, unit) act" where
  "logger_error msg w = (Inr (), w\<lparr>errlog := errlog w @ [msg]\<rparr>)"

subsection \<open>\<^verbatim>\<open>_refine\<close> and \<^verbatim>\<open>refine\<close>\<close>

text \<open>
  \<^verbatim>\<open>_refine\<close> (lines 109 to 120; an Isabelle name cannot start with an underscore):
  a \<^verbatim>\<open>POST /session\<close> whose response is dropped, then the \<^verbatim>\<open>PUT /refine\<close>, whose
  decoded body is returned. Nothing else is done: no item is read or written.
\<close>

definition private_refine :: "'e env \<Rightarrow> (string \<rightharpoonup> json) \<Rightarrow> ('e world, json) act" where
  "private_refine env params =
     andthen (lift (getitem params ''sid'')) (\<lambda>sid0.
     andthen (http_post_session env sid0) (\<lambda>_.
     andthen (lift (getitem params ''sid'')) (\<lambda>sid.
     andthen (lift (getitem params ''pos_uuids'')) (\<lambda>pos.
     andthen (lift (getitem params ''neg_uuids'')) (\<lambda>neg.
     http_put_refine env sid pos neg)))))"

text \<open>The route \<^verbatim>\<open>PUT /refine\<close>: \<^verbatim>\<open>self._refine(getBodyJson())\<close>.\<close>

definition refine :: "'e env \<Rightarrow> (string \<rightharpoonup> json) \<Rightarrow> ('e world, json) act" where
  "refine env body = private_refine env body"

subsection \<open>\<^verbatim>\<open>results\<close>\<close>

text \<open>
  The nested \<^verbatim>\<open>sid_exists(sid)\<close> (lines 130 to 135). It does not read its argument: it
  posts \<^verbatim>\<open>params['sid']\<close> and returns \<^verbatim>\<open>not response.ok\<close>.
\<close>

definition sid_exists :: "'e env \<Rightarrow> (string \<rightharpoonup> string) \<Rightarrow> string \<Rightarrow> ('e world, bool) act" where
  "sid_exists env params sid =
     andthen (lift (getitem params ''sid'')) (\<lambda>s.
     andthen (http_post_session env (JStr s)) (\<lambda>ok.
     ret (\<not> ok)))"

text \<open>
  Lines 140 to 148: when \<^verbatim>\<open>sid_exists\<close> says no, the item of the session is looked
  up, and when there is one, \<^verbatim>\<open>_refine\<close> is called with its stored uuids.
\<close>

definition reconcile :: "'e env \<Rightarrow> (string \<rightharpoonup> string) \<Rightarrow> ('e world, unit) act" where
  "reconcile env params =
     andthen (lift (getitem params ''sid'')) (\<lambda>sid.
     andthen (sid_exists env params sid) (\<lambda>ex.
     if \<not> ex then
       andthen (findOne sid) (\<lambda>session.
       case session of
         None \<Rightarrow> ret ()
       | Some it \<Rightarrow>
           andthen (lift (getitem (meta it) ''pos_uuids'')) (\<lambda>pos.
           andthen (lift (getitem (meta it) ''neg_uuids'')) (\<lambda>neg.
           andthen (private_refine env
                      [''sid'' \<mapsto> JStr sid, ''pos_uuids'' \<mapsto> pos, ''neg_uuids'' \<mapsto> neg]) (\<lambda>_.
           ret ()))))
     else ret ()))"

text \<open>
  The sort key's second component and the key of the confidence lookup:
  \<^verbatim>\<open>x['sha1sum_s_md'][0] if isinstance(x['sha1sum_s_md'], list) else x['sha1sum_s_md']\<close>.
  Indexing an empty list raises \<^verbatim>\<open>IndexError\<close>.
\<close>

fun checksum_key :: "checksum_field \<Rightarrow> error + string" where
  "checksum_key (Single s) = Inr s"
| "checksum_key (Multi []) = Inl IndexError"
| "checksum_key (Multi (s # _)) = Inr s"

text \<open>
  \<^verbatim>\<open>dict(pairs)\<close>: the pairs are stored from left to right, a later one replacing
  an earlier one with the same key.
\<close>

definition py_dict :: "('k \<times> 'v) list \<Rightarrow> ('k \<rightharpoonup> 'v)" where
  "py_dict ps = foldl (\<lambda>m (k, v). m(k \<mapsto> v)) Map.empty ps"

text \<open>
  The loop of lines 170 to 174: each document gets its confidence, in order; the first
  document whose key is not in the dict stops the loop with \<^verbatim>\<open>KeyError\<close>.
\<close>

fun attach_confidence :: "(string \<rightharpoonup> real) \<Rightarrow> document list \<Rightarrow> error + document list" where
  "attach_confidence cv [] = Inr []"
| "attach_confidence cv (d # ds) =
     (case checksum_key (sha1sum_s_md d) of
        Inl e \<Rightarrow> Inl e
      | Inr k \<Rightarrow>
          (case cv k of
             None \<Rightarrow> Inl KeyError
           | Some c \<Rightarrow>
               (case attach_confidence cv ds of
                  Inl e \<Rightarrow> Inl e
                | Inr ds' \<Rightarrow> Inr (d\<lparr>smqtk_iqr_confidence := Some c\<rparr> # ds'))))"

text \<open>The key of the sort, lines 179 and 180: the pair (confidence, checksum).\<close>

definition sort_key_of :: "document \<Rightarrow> error + (real \<times> string)" where
  "sort_key_of x =
     (case smqtk_iqr_confidence x of
        None \<Rightarrow> Inl KeyError
      | Some c \<Rightarrow>
          (case checksum_key (sha1sum_s_md x) of
             Inl e \<Rightarrow> Inl e
           | Inr k \<Rightarrow> Inr (c, k)))"

fun map_result :: "('a \<Rightarrow> error + 'b) \<Rightarrow> 'a list \<Rightarrow> error + 'b list" where
  "map_result f [] = Inr []"
| "map_result f (x # xs) =
     (case f x of
        Inl e \<Rightarrow> Inl e
      | Inr y \<Rightarrow> (case map_result f xs of Inl e \<Rightarrow> Inl e | Inr ys \<Rightarrow> Inr (y # ys)))"

text \<open>
  \<^verbatim>\<open>sorted(xs, key=key, reverse=reverse)\<close>: the keys are computed first, one per
  element (an exception of \<^verbatim>\<open>key\<close> is the exception of \<^verbatim>\<open>sorted\<close>); the sort is
  stable, and with \<^verbatim>\<open>reverse\<close> it is the stable ascending sort of the reversed list,
  reversed, so that elements with equal keys keep their order.
\<close>

definition py_sorted :: "('a \<Rightarrow> error + 'k::linorder) \<Rightarrow> bool \<Rightarrow> 'a list \<Rightarrow> error + 'a list" where
  "py_sorted key reverse xs =
     (case map_result key xs of
        Inl e \<Rightarrow> Inl e
      | Inr ks \<Rightarrow>
          Inr (map snd (if reverse then rev (sort_key fst (rev (zip ks xs)))
                        else sort_key fst (zip ks xs))))"

text \<open>
  Lines 156 to 182. A response without the key \<^verbatim>\<open>'results'\<close>, or a \<^verbatim>\<open>KeyError\<close>
  of \<^verbatim>\<open>solr_documents_from_field\<close>, gives the empty page; any other exception goes to the
  caller. One line is logged when fewer documents than ranked entries were found. The
  returned dict reads \<^verbatim>\<open>resp['total_results']\<close> (\<^verbatim>\<open>KeyError\<close> when absent) before
  it sorts.
\<close>

definition merge_page :: "'e env \<Rightarrow> string \<Rightarrow> results_resp \<Rightarrow> ('e world, page) act" where
  "merge_page env sid resp =
     (case results_field resp of
        None \<Rightarrow> ret \<lparr>numFound = 0, docs = []\<rparr>
      | Some entries \<Rightarrow>
          (case solr_documents_from_field env ''sha1sum_s_md'' (map fst entries) of
             Inl e \<Rightarrow> if e = KeyError then ret \<lparr>numFound = 0, docs = []\<rparr> else lift (Inl e)
           | Inr documents \<Rightarrow>
               andthen (if length documents < length entries
                        then logger_error (''SID '' @ sid @
                          '': There are SMQTK descriptors that have no corresponding Solr document(s).'')
                        else ret ()) (\<lambda>_.
               andthen (lift (attach_confidence (py_dict entries) documents)) (\<lambda>documents'.
               andthen (lift (case total_results resp of
                                None \<Rightarrow> Inl KeyError | Some n \<Rightarrow> Inr n)) (\<lambda>total_found.
               andthen (lift (py_sorted sort_key_of True documents')) (\<lambda>sorted_docs.
               ret \<lparr>numFound = total_found, docs = sorted_docs\<rparr>))))))"

text \<open>
  \<^verbatim>\<open>results\<close> (lines 129 to 182): \<^verbatim>\<open>offset\<close> and \<^verbatim>\<open>limit\<close> with their defaults,
  the reconciliation, the fetch of the window \<^verbatim>\<open>i = offset\<close>, \<^verbatim>\<open>j = offset + limit\<close>,
  and the merge.
\<close>

definition param_int :: "'e env \<Rightarrow> (string \<rightharpoonup> string) \<Rightarrow> string \<Rightarrow> int \<Rightarrow> error + int" where
  "param_int env params k dflt =
     (case params k of None \<Rightarrow> Inr dflt | Some s \<Rightarrow> env_int env s)"

definition results :: "'e env \<Rightarrow> (string \<rightharpoonup> string) \<Rightarrow> ('e world, page) act" where
  "results env params =
     andthen (lift (param_int env params ''offset'' 0)) (\<lambda>offset.
     andthen (lift (param_int env params ''limit'' 20)) (\<lambda>limit.
     andthen (reconcile env params) (\<lambda>_.
     andthen (lift (getitem params ''sid'')) (\<lambda>sid.
     andthen (http_get_results env sid offset (offset + limit)) (\<lambda>resp.
     merge_page env sid resp)))))"

subsection \<open>Instances of the parameters\<close>

text \<open>
  \<^verbatim>\<open>Response.ok\<close> of \<^verbatim>\<open>requests\<close>, from the status code: \<^verbatim>\<open>raise_for_status\<close> raises
  for a status from 400 to 599, and \<^verbatim>\<open>ok\<close> is true when it does not raise. So a 1xx
  or 3xx status is \<^verbatim>\<open>ok\<close>, as a 2xx status is.
\<close>

definition response_ok :: "int \<Rightarrow> bool" where
  "response_ok status = (\<not> (400 \<le> status \<and> status < 600))"

text \<open>
  What \<^verbatim>\<open>requests.post(...).ok\<close> gives against a server that answers with a status
  code.
\<close>

definition requests_post ::
  "('e \<Rightarrow> json \<Rightarrow> (error + int) \<times> 'e) \<Rightarrow> 'e \<Rightarrow> json \<Rightarrow> (error + bool) \<times> 'e" where
  "requests_post server e sid =
     (case server e sid of
        (Inl x, e') \<Rightarrow> (Inl x, e')
      | (Inr status, e') \<Rightarrow> (Inr (response_ok status), e'))"

text \<open>
  Modelled from the spec: the ranking engine is a service outside this repository. Its
  wire contract (section 6) says of \<^verbatim>\<open>POST /session\<close>: a response with the sid on
  success, a non-2xx response if the sid is already live. The engine's state is the list
  of its live session ids. The contract does not say which non-2xx status an already
  live sid gets: it is the parameter \<open>live_status\<close>. A success is answered with 200.
\<close>

definition spec_post_session :: "int \<Rightarrow> json list \<Rightarrow> json \<Rightarrow> (error + int) \<times> json list" where
  "spec_post_session live_status live sid =
     (if sid \<in> set live then (Inr live_status, live) else (Inr 200, sid # live))"

text \<open>
  An instance of \<open>env_int\<close>: \<^verbatim>\<open>int\<close> on a string of ASCII decimal digits. (Python's
  \<^verbatim>\<open>int\<close> takes more strings than these; the theorems below hold for any \<open>env_int\<close>.)
\<close>

definition is_digit :: "char \<Rightarrow> bool" where
  "is_digit c = (CHR ''0'' \<le> c \<and> c \<le> CHR ''9'')"

definition decimal_int :: "string \<Rightarrow> error + int" where
  "decimal_int s =
     (if s \<noteq> [] \<and> list_all is_digit s
      then Inr (foldl (\<lambda>n c. 10 * n + (int (of_char c) - 48)) 0 s)
      else Inl ValueError)"

text \<open>
  An environment for examples: the engine of the wire contract, reached through
  \<^verbatim>\<open>requests\<close>, which answers every \<^verbatim>\<open>PUT /refine\<close> with an empty object and every
  \<^verbatim>\<open>GET /get_results\<close> with \<open>resp\<close>, and an index given as a function.
\<close>

definition spec_env ::
  "int \<Rightarrow> results_resp \<Rightarrow> (string \<Rightarrow> string list \<Rightarrow> error + document list) \<Rightarrow> json list env" where
  "spec_env live_status resp solr =
     \<lparr>env_int = decimal_int,
      post_session = requests_post (spec_post_session live_status),
      put_refine = (\<lambda>e sid pos neg. (Inr (JObj []), e)),
      get_results = (\<lambda>e sid i j. (Inr resp, e)),
      solr_documents_from_field = solr\<rparr>"

definition world0 :: "item list \<Rightarrow> json list world" where
  "world0 its = \<lparr>engine = [], sent = [], items = its, errlog = []\<rparr>"

text \<open>
  The example of the specification (section 8): three ranked entries, of which
  \<^verbatim>\<open>a1\<close> and \<^verbatim>\<open>a2\<close> have a document each (the second with a list of checksums) and
  \<^verbatim>\<open>a3\<close> has none. In the examples the engine answers an already live sid with 409.
\<close>

definition example_ranked :: "(string \<times> real) list" where
  "example_ranked = [(''a1'', 9 / 10), (''a2'', 9 / 10), (''a3'', 1 / 10)]"

definition doc_a1 :: document where
  "doc_a1 = \<lparr>doc_id = ''Doc(a1)'', sha1sum_s_md = Single ''a1'', smqtk_iqr_confidence = None\<rparr>"

definition doc_a2 :: document where
  "doc_a2 = \<lparr>doc_id = ''Doc(a2)'', sha1sum_s_md = Multi [''a2'', ''a9''],
             smqtk_iqr_confidence = None\<rparr>"

definition example_solr :: "string \<Rightarrow> string list \<Rightarrow> error + document list" where
  "example_solr field vals =
     Inr (concat (map (\<lambda>v. if v = ''a1'' then [doc_a1] else if v = ''a2'' then [doc_a2] else [])
                      vals))"

definition example_env :: "int \<Rightarrow> json list env" where
  "example_env n =
     spec_env 409 \<lparr>total_results = Some n, results_field = Some example_ranked\<rparr> example_solr"

text \<open>
  A ranked entry \<^verbatim>\<open>a1\<close> and an index that answers with two documents: the one of
  \<^verbatim>\<open>a1\<close>, and one whose checksum list holds \<^verbatim>\<open>a1\<close> but begins with \<^verbatim>\<open>zz\<close>, a
  checksum the engine did not rank.
\<close>

definition doc_zz :: document where
  "doc_zz = \<lparr>doc_id = ''Doc(zz)'', sha1sum_s_md = Multi [''zz'', ''a1''],
             smqtk_iqr_confidence = None\<rparr>"

definition orphan_env :: "json list env" where
  "orphan_env =
     spec_env 409 \<lparr>total_results = Some 2, results_field = Some [(''a1'', 9 / 10)]\<rparr>
       (\<lambda>field vals. Inr [doc_a1, doc_zz])"

text \<open>
  Items of the session \<^verbatim>\<open>s1\<close>: one with stored uuids, one whose stored lists are
  empty, one whose metadata has the sid only. And a body for \<^verbatim>\<open>PUT /refine\<close>.
\<close>

definition session_item :: item where
  "session_item =
     \<lparr>name = ''s1'',
      meta = [''sid'' \<mapsto> JStr ''s1'', ''pos_uuids'' \<mapsto> JArr [JStr ''p0''],
              ''neg_uuids'' \<mapsto> JArr [JStr ''n0'']]\<rparr>"

definition unlabelled_item :: item where
  "unlabelled_item =
     \<lparr>name = ''s1'',
      meta = [''sid'' \<mapsto> JStr ''s1'', ''pos_uuids'' \<mapsto> JArr [], ''neg_uuids'' \<mapsto> JArr []]\<rparr>"

definition bare_item :: item where
  "bare_item = \<lparr>name = ''s1'', meta = [''sid'' \<mapsto> JStr ''s1'']\<rparr>"

definition refine_body :: "string \<rightharpoonup> json" where
  "refine_body =
     [''sid'' \<mapsto> JStr ''s1'', ''pos_uuids'' \<mapsto> JArr [JStr ''p1''],
      ''neg_uuids'' \<mapsto> JArr [JStr ''n1'']]"

text \<open>An engine whose answer to the fetch is an object with neither key.\<close>

definition no_results_env :: "json list env" where
  "no_results_env = spec_env 409 \<lparr>total_results = None, results_field = None\<rparr> example_solr"

text \<open>
  The engine of the wire contract again, answering an already live sid with 304, which is
  not a 2xx status either.
\<close>

definition unmodified_env :: "json list env" where
  "unmodified_env =
     spec_env 304 \<lparr>total_results = Some 0, results_field = Some []\<rparr> example_solr"

section \<open>Facts about the parts\<close>

lemmas act_defs = ret_def lift_def andthen_def getitem_def

lemmas http_defs =
  http_post_session_def http_put_refine_def http_get_results_def findOne_def logger_error_def

lemmas example_defs =
  spec_env_def example_env_def world0_def spec_post_session_def requests_post_def
  response_ok_def unmodified_env_def example_solr_def
  example_ranked_def doc_a1_def doc_a2_def doc_zz_def orphan_env_def session_item_def
  unlabelled_item_def bare_item_def refine_body_def no_results_env_def

lemmas results_defs =
  results_def merge_page_def param_int_def reconcile_def sid_exists_def private_refine_def
  py_dict_def py_sorted_def sort_key_of_def

subsection \<open>The dict of the ranked entries\<close>

lemma py_dict_foldl:
  "foldl (\<lambda>m (k, v). m(k \<mapsto> v)) m0 ps = m0 ++ map_of (rev ps)"
  by (induction ps arbitrary: m0) (auto simp: map_add_def fun_eq_iff split: option.splits)

lemma py_dict_map_of: "py_dict ps = map_of (rev ps)"
  by (simp add: py_dict_def py_dict_foldl)

lemma py_dict_dom: "dom (py_dict ps) = fst ` set ps"
  by (simp add: py_dict_map_of dom_map_of_conv_image_fst)

lemma py_dict_snoc: "py_dict (ps @ [(k, v)]) = (py_dict ps)(k \<mapsto> v)"
  by (simp add: py_dict_def)

lemma py_dict_last:
  assumes "i < length ps" and "fst (ps ! i) = k"
    and "\<forall>j. i < j \<and> j < length ps \<longrightarrow> fst (ps ! j) \<noteq> k"
  shows "py_dict ps k = Some (snd (ps ! i))"
  using assms
proof (induction ps rule: rev_induct)
  case Nil
  then show ?case by simp
next
  case (snoc p ps)
  obtain k' v' where p: "p = (k', v')" by (cases p)
  show ?case
  proof (cases "i = length ps")
    case True
    with snoc.prems p show ?thesis
      by (simp add: py_dict_snoc)
  next
    case False
    with snoc.prems have i: "i < length ps" by simp
    from snoc.prems(3) i have "fst ((ps @ [p]) ! length ps) \<noteq> k"
      by (elim allE [of _ "length ps"]) simp
    then have ne: "k' \<noteq> k" by (simp add: p)
    have "\<forall>j. i < j \<and> j < length ps \<longrightarrow> fst (ps ! j) \<noteq> k"
    proof (intro allI impI)
      fix j assume j: "i < j \<and> j < length ps"
      with snoc.prems(3) have "fst ((ps @ [p]) ! j) \<noteq> k" by simp
      with j show "fst (ps ! j) \<noteq> k" by (simp add: nth_append)
    qed
    with snoc.IH i snoc.prems(2) have "py_dict ps k = Some (snd (ps ! i))"
      by (simp add: nth_append)
    with ne i show ?thesis
      by (simp add: p py_dict_snoc nth_append)
  qed
qed

subsection \<open>The loop that attaches the confidences\<close>

lemma attach_confidence_Inr:
  "attach_confidence cv ds = Inr ds' \<Longrightarrow>
   list_all2 (\<lambda>d d'. \<exists>k c. checksum_key (sha1sum_s_md d) = Inr k \<and> cv k = Some c \<and>
                        d' = d\<lparr>smqtk_iqr_confidence := Some c\<rparr>) ds ds'"
  by (induction ds arbitrary: ds') (auto split: sum.splits option.splits)

lemma attach_confidence_Inl:
  "attach_confidence cv ds = Inl e \<Longrightarrow> e = KeyError \<or> e = IndexError"
  by (induction ds) (auto split: sum.splits option.splits elim: checksum_key.elims)

lemma attach_confidence_KeyError:
  assumes "i < length ds" and "checksum_key (sha1sum_s_md (ds ! i)) = Inr k" and "cv k = None"
    and "\<forall>j<i. sha1sum_s_md (ds ! j) \<noteq> Multi []"
  shows "attach_confidence cv ds = Inl KeyError"
  using assms
proof (induction ds arbitrary: i)
  case Nil
  then show ?case by simp
next
  case (Cons d ds)
  show ?case
  proof (cases i)
    case 0
    with Cons.prems show ?thesis by simp
  next
    case (Suc i')
    from Cons.prems(4) Suc have "sha1sum_s_md ((d # ds) ! 0) \<noteq> Multi []"
      by blast
    then obtain k0 where k0: "checksum_key (sha1sum_s_md d) = Inr k0"
      by (cases "sha1sum_s_md d" rule: checksum_key.cases) auto
    have "\<forall>j<i'. sha1sum_s_md (ds ! j) \<noteq> Multi []"
    proof (intro allI impI)
      fix j assume "j < i'"
      with Suc have "Suc j < i" by simp
      with Cons.prems(4) have "sha1sum_s_md ((d # ds) ! Suc j) \<noteq> Multi []"
        by blast
      then show "sha1sum_s_md (ds ! j) \<noteq> Multi []" by simp
    qed
    with Cons.IH [of i'] Cons.prems(1,2,3) Suc
    have "attach_confidence cv ds = Inl KeyError"
      by simp
    with k0 show ?thesis
      by (simp split: option.splits)
  qed
qed

lemma attach_confidence_IndexError:
  assumes "i < length ds" and "sha1sum_s_md (ds ! i) = Multi []"
    and "\<forall>j<i. \<exists>k c. checksum_key (sha1sum_s_md (ds ! j)) = Inr k \<and> cv k = Some c"
  shows "attach_confidence cv ds = Inl IndexError"
  using assms
proof (induction ds arbitrary: i)
  case Nil
  then show ?case by simp
next
  case (Cons d ds)
  show ?case
  proof (cases i)
    case 0
    with Cons.prems show ?thesis by simp
  next
    case (Suc i')
    from Cons.prems(3) Suc
    have "\<exists>k c. checksum_key (sha1sum_s_md ((d # ds) ! 0)) = Inr k \<and> cv k = Some c"
      by blast
    then obtain k0 c0 where k0: "checksum_key (sha1sum_s_md d) = Inr k0" "cv k0 = Some c0"
      by auto
    have "\<forall>j<i'. \<exists>k c. checksum_key (sha1sum_s_md (ds ! j)) = Inr k \<and> cv k = Some c"
    proof (intro allI impI)
      fix j assume "j < i'"
      with Suc have "Suc j < i" by simp
      with Cons.prems(3)
      have "\<exists>k c. checksum_key (sha1sum_s_md ((d # ds) ! Suc j)) = Inr k \<and> cv k = Some c"
        by blast
      then show "\<exists>k c. checksum_key (sha1sum_s_md (ds ! j)) = Inr k \<and> cv k = Some c"
        by simp
    qed
    with Cons.IH [of i'] Cons.prems(1,2) Suc
    have "attach_confidence cv ds = Inl IndexError"
      by simp
    with k0 show ?thesis
      by simp
  qed
qed

lemma attach_confidence_missing:
  "d \<in> set ds \<Longrightarrow> checksum_key (sha1sum_s_md d) = Inr k \<Longrightarrow> cv k = None \<Longrightarrow>
   \<exists>e. attach_confidence cv ds = Inl e"
  by (induction ds) (auto split: sum.splits option.splits)

subsection \<open>The sort\<close>

lemma map_result_Inr:
  "map_result f xs = Inr ys \<Longrightarrow> list_all2 (\<lambda>x y. f x = Inr y) xs ys"
  by (induction xs arbitrary: ys) (auto split: sum.splits)

lemma py_sorted_mset:
  assumes "py_sorted key r xs = Inr ys"
  shows "mset ys = mset xs"
proof -
  from assms obtain ks where ks: "map_result key xs = Inr ks"
    and ys: "ys = map snd (if r then rev (sort_key fst (rev (zip ks xs)))
                           else sort_key fst (zip ks xs))"
    by (auto simp: py_sorted_def split: sum.splits)
  from map_result_Inr [OF ks] have len: "length ks = length xs"
    by (simp add: list_all2_lengthD)
  have "mset ys = image_mset snd (mset (zip ks xs))"
    by (simp add: ys)
  also have "\<dots> = mset (map snd (zip ks xs))"
    by simp
  also have "\<dots> = mset xs"
    using len by simp
  finally show ?thesis .
qed


subsection \<open>What each part of \<^verbatim>\<open>results\<close> leaves unchanged, and what it sends\<close>

lemma private_refine_frame:
  "private_refine env body w = (r, w') \<Longrightarrow> items w' = items w \<and> errlog w' = errlog w"
  by (auto simp add: private_refine_def act_defs http_defs split: option.splits prod.splits sum.splits)

lemma private_refine_sent:
  "private_refine env body w = (r, w') \<Longrightarrow>
   \<exists>tr. sent w' = sent w @ tr \<and> (\<forall>s i j. GetResults s i j \<notin> set tr)"
  by (auto simp add: private_refine_def act_defs http_defs split: option.splits prod.splits sum.splits)

lemma reconcile_frame:
  "reconcile env params w = (r, w') \<Longrightarrow> items w' = items w \<and> errlog w' = errlog w"
  by (auto simp add: reconcile_def sid_exists_def act_defs http_defs
      split: option.splits prod.splits sum.splits if_splits dest: private_refine_frame)

lemma reconcile_sent:
  "reconcile env params w = (r, w') \<Longrightarrow>
   \<exists>tr. sent w' = sent w @ tr \<and> (\<forall>s i j. GetResults s i j \<notin> set tr)"
  by (auto simp add: reconcile_def sid_exists_def act_defs http_defs
      split: option.splits prod.splits sum.splits if_splits dest!: private_refine_sent)

lemma merge_page_frame:
  "merge_page env sid resp w = (r, w') \<Longrightarrow>
   sent w' = sent w \<and> items w' = items w \<and> engine w' = engine w"
  by (auto simp add: merge_page_def act_defs http_defs
      split: option.splits prod.splits sum.splits if_splits)

lemma merge_page_errlog:
  assumes "results_field resp = Some es"
    and "solr_documents_from_field env ''sha1sum_s_md'' (map fst es) = Inr ds"
    and "merge_page env sid resp w = (r, w')"
  shows "errlog w' = errlog w @
     (if length ds < length es
      then [''SID '' @ sid @
            '': There are SMQTK descriptors that have no corresponding Solr document(s).'']
      else [])"
  using assms
  by (auto simp add: merge_page_def act_defs http_defs
      split: option.splits prod.splits sum.splits if_splits)


lemma merge_page_raises:
  assumes "results_field resp = Some es"
    and "solr_documents_from_field env ''sha1sum_s_md'' (map fst es) = Inr ds"
    and "attach_confidence (py_dict es) ds = Inl e"
  shows "fst (merge_page env sid resp w) = Inl e"
  using assms
  by (auto simp add: merge_page_def act_defs http_defs
      split: option.splits prod.splits sum.splits if_splits)

lemma results_fetched:
  assumes "param_int env params ''offset'' 0 = Inr off"
    and "param_int env params ''limit'' 20 = Inr lmt"
    and "reconcile env params w = (Inr u, w1)"
    and "get_results env (engine w1) sid off (off + lmt) = (r, e2)"
    and "params ''sid'' = Some sid"
  shows "results env params w =
     (case r of
        Inl e \<Rightarrow> (Inl e, w1\<lparr>engine := e2, sent := sent w1 @ [GetResults sid off (off + lmt)]\<rparr>)
      | Inr resp \<Rightarrow>
          merge_page env sid resp
            (w1\<lparr>engine := e2, sent := sent w1 @ [GetResults sid off (off + lmt)]\<rparr>))"
  using assms
  by (simp add: results_def act_defs http_defs split: sum.splits)


lemma reconcile_sid: "reconcile env params w = (Inr u, w1) \<Longrightarrow> \<exists>sid. params ''sid'' = Some sid"
  by (auto simp add: reconcile_def act_defs split: option.splits)

lemma merge_page_Inr_resolved:
  assumes "results_field resp = Some es"
    and "solr_documents_from_field env ''sha1sum_s_md'' (map fst es) = Inr ds"
    and "merge_page env sid resp w = (Inr pg, w')"
  shows "\<exists>ds'. attach_confidence (py_dict es) ds = Inr ds' \<and>
       total_results resp = Some (numFound pg) \<and>
       py_sorted sort_key_of True ds' = Inr (docs pg)"
  using assms
  by (auto simp add: merge_page_def act_defs http_defs
      split: option.splits prod.splits sum.splits if_splits)

lemma private_refine_Inr_response:
  assumes "private_refine env body w = (Inr x, w')"
  shows "\<exists>sid pos neg b e1 e2. body ''sid'' = Some sid \<and> body ''pos_uuids'' = Some pos \<and>
     body ''neg_uuids'' = Some neg \<and>
     post_session env (engine w) sid = (Inr b, e1) \<and>
     put_refine env e1 sid pos neg = (Inr x, e2) \<and>
     sent w' = sent w @ [PostSession sid, PutRefine sid pos neg]"
  using assms
  by (auto simp add: private_refine_def act_defs http_defs
      split: option.splits prod.splits sum.splits)

lemma private_refine_Inr:
  assumes "private_refine env body w = (Inr x, w')"
  shows "\<exists>sid pos neg. body ''sid'' = Some sid \<and> body ''pos_uuids'' = Some pos \<and>
     body ''neg_uuids'' = Some neg \<and>
     sent w' = sent w @ [PostSession sid, PutRefine sid pos neg]"
  using assms
  by (auto simp add: private_refine_def act_defs http_defs
      split: option.splits prod.splits sum.splits)

subsection \<open>The reconciliation, case by case\<close>

lemma results_sent:
  assumes "param_int env params ''offset'' 0 = Inr off"
    and "param_int env params ''limit'' 20 = Inr lmt"
    and "reconcile env params w = (Inr u, w1)"
    and "params ''sid'' = Some sid"
  shows "sent (snd (results env params w)) = sent w1 @ [GetResults sid off (off + lmt)]"
proof -
  obtain g e2 where get: "get_results env (engine w1) sid off (off + lmt) = (g, e2)"
    by (cases "get_results env (engine w1) sid off (off + lmt)")
  let ?w2 = "w1\<lparr>engine := e2, sent := sent w1 @ [GetResults sid off (off + lmt)]\<rparr>"
  show ?thesis
  proof (cases g)
    case (Inl e)
    with results_fetched [OF assms(1,2,3) get assms(4)] show ?thesis by simp
  next
    case (Inr resp)
    with results_fetched [OF assms(1,2,3) get assms(4)]
    have "results env params w = merge_page env sid resp ?w2" by simp
    moreover obtain r' w' where m: "merge_page env sid resp ?w2 = (r', w')"
      by (cases "merge_page env sid resp ?w2")
    ultimately show ?thesis
      using merge_page_frame [OF m] by simp
  qed
qed

lemma results_sent_cases:
  "(\<exists>e. (param_int env params ''offset'' 0 = Inl e \<or> param_int env params ''limit'' 20 = Inl e) \<and>
        results env params w = (Inl e, w)) \<or>
   (\<exists>e w1. reconcile env params w = (Inl e, w1) \<and> sent (snd (results env params w)) = sent w1) \<or>
   (\<exists>offset limit u w1 sid.
      param_int env params ''offset'' 0 = Inr offset \<and>
      param_int env params ''limit'' 20 = Inr limit \<and>
      reconcile env params w = (Inr u, w1) \<and> params ''sid'' = Some sid \<and>
      sent (snd (results env params w)) = sent w1 @ [GetResults sid offset (offset + limit)])"
proof (cases "param_int env params ''offset'' 0")
  case (Inl e)
  then have "results env params w = (Inl e, w)"
    by (simp add: results_def act_defs)
  with Inl show ?thesis by blast
next
  case off: (Inr offset)
  show ?thesis
  proof (cases "param_int env params ''limit'' 20")
    case (Inl e)
    with off have "results env params w = (Inl e, w)"
      by (simp add: results_def act_defs)
    with Inl show ?thesis by blast
  next
    case lmt: (Inr limit)
    obtain r w1 where rec: "reconcile env params w = (r, w1)"
      by (cases "reconcile env params w")
    show ?thesis
    proof (cases r)
      case (Inl e)
      with off lmt rec have "results env params w = (Inl e, w1)"
        by (simp add: results_def act_defs)
      with rec Inl show ?thesis by auto
    next
      case (Inr u)
      with rec have rec': "reconcile env params w = (Inr u, w1)" by simp
      from reconcile_sid [OF rec'] obtain sid where sid: "params ''sid'' = Some sid"
        by blast
      from results_sent [OF off lmt rec' sid] off lmt rec' sid show ?thesis
        by blast
    qed
  qed
qed

lemma reconcile_replay:
  assumes "params ''sid'' = Some sid"
    and "post_session env (engine w) (JStr sid) = (Inr True, e1)"
    and "find (\<lambda>it. meta it ''sid'' = Some (JStr sid)) (items w) = Some it"
    and "meta it ''pos_uuids'' = Some p" and "meta it ''neg_uuids'' = Some n"
  shows "reconcile env params w =
     andthen (private_refine env [''sid'' \<mapsto> JStr sid, ''pos_uuids'' \<mapsto> p, ''neg_uuids'' \<mapsto> n])
       (\<lambda>_. ret ()) (w\<lparr>engine := e1, sent := sent w @ [PostSession (JStr sid)]\<rparr>)"
  using assms
  by (simp add: reconcile_def sid_exists_def act_defs http_defs)

lemma reconcile_replay_sent:
  assumes "params ''sid'' = Some sid"
    and "post_session env (engine w) (JStr sid) = (Inr True, e1)"
    and "find (\<lambda>it. meta it ''sid'' = Some (JStr sid)) (items w) = Some it"
    and "meta it ''pos_uuids'' = Some p" and "meta it ''neg_uuids'' = Some n"
    and "post_session env e1 (JStr sid) = (Inr b, e2)"
    and "put_refine env e2 (JStr sid) p n = (Inr r, e3)"
  shows "reconcile env params w =
     (Inr (), w\<lparr>engine := e3,
                sent := sent w @ [PostSession (JStr sid), PostSession (JStr sid),
                                  PutRefine (JStr sid) p n]\<rparr>)"
  using assms
  by (simp add: reconcile_def sid_exists_def private_refine_def act_defs http_defs)

lemma reconcile_replay_Inr:
  assumes "params ''sid'' = Some sid"
    and "post_session env (engine w) (JStr sid) = (Inr True, e1)"
    and "find (\<lambda>it. meta it ''sid'' = Some (JStr sid)) (items w) = Some it"
    and "meta it ''pos_uuids'' = Some p" and "meta it ''neg_uuids'' = Some n"
    and "reconcile env params w = (Inr u, w1)"
  shows "sent w1 = sent w @ [PostSession (JStr sid), PostSession (JStr sid),
                             PutRefine (JStr sid) p n]"
proof -
  let ?body = "[''sid'' \<mapsto> JStr sid, ''pos_uuids'' \<mapsto> p, ''neg_uuids'' \<mapsto> n]"
  let ?w0 = "w\<lparr>engine := e1, sent := sent w @ [PostSession (JStr sid)]\<rparr>"
  from reconcile_replay [where params = params, OF assms(1-5)] assms(6)
  have "andthen (private_refine env ?body) (\<lambda>_. ret ()) ?w0 = (Inr u, w1)"
    by simp
  then obtain x where "private_refine env ?body ?w0 = (Inr x, w1)"
    by (auto simp: andthen_def ret_def split: prod.splits sum.splits)
  from private_refine_Inr [OF this] show ?thesis
    by auto
qed

lemma reconcile_missing_key:
  assumes "params ''sid'' = Some sid"
    and "post_session env (engine w) (JStr sid) = (Inr True, e1)"
    and "find (\<lambda>it. meta it ''sid'' = Some (JStr sid)) (items w) = Some it"
    and "meta it ''pos_uuids'' = None \<or> meta it ''neg_uuids'' = None"
  shows "reconcile env params w =
     (Inl KeyError, w\<lparr>engine := e1, sent := sent w @ [PostSession (JStr sid)]\<rparr>)"
  using assms
  by (auto simp add: reconcile_def sid_exists_def act_defs http_defs split: option.splits)

lemma reconcile_no_record:
  assumes "params ''sid'' = Some sid"
    and "post_session env (engine w) (JStr sid) = (Inr True, e1)"
    and "find (\<lambda>it. meta it ''sid'' = Some (JStr sid)) (items w) = None"
  shows "reconcile env params w =
     (Inr (), w\<lparr>engine := e1, sent := sent w @ [PostSession (JStr sid)]\<rparr>)"
  using assms
  by (simp add: reconcile_def sid_exists_def act_defs http_defs)

lemma results_reconcile_raises:
  assumes "reconcile env params w = (Inl e, w1)"
  shows "\<exists>e'. fst (results env params w) = Inl e'"
  using assms
  by (auto simp add: results_def act_defs split: sum.splits)

lemma results_reconcile_raises_exact:
  assumes "param_int env params ''offset'' 0 = Inr off"
    and "param_int env params ''limit'' 20 = Inr lmt"
    and "reconcile env params w = (Inl e, w1)"
  shows "results env params w = (Inl e, w1)"
  using assms
  by (auto simp add: results_def act_defs split: sum.splits)

section \<open>The claims\<close>

subsection \<open>The examples, evaluated\<close>

lemma example_results_eval:
  "results (example_env n) [''sid'' \<mapsto> ''s1''] (world0 []) =
     (Inr \<lparr>numFound = n,
           docs = [doc_a2\<lparr>smqtk_iqr_confidence := Some (9 / 10)\<rparr>,
                   doc_a1\<lparr>smqtk_iqr_confidence := Some (9 / 10)\<rparr>]\<rparr>,
      \<lparr>engine = [JStr ''s1''],
       sent = [PostSession (JStr ''s1''), GetResults ''s1'' 0 20],
       items = [],
       errlog = [''SID s1: There are SMQTK descriptors that have no corresponding Solr document(s).'']\<rparr>)"
  by (simp add: results_defs act_defs http_defs example_defs)

lemma orphan_results_eval:
  "results orphan_env [''sid'' \<mapsto> ''s1''] (world0 []) =
     (Inl KeyError,
      \<lparr>engine = [JStr ''s1''],
       sent = [PostSession (JStr ''s1''), GetResults ''s1'' 0 20],
       items = [], errlog = []\<rparr>)"
  by (simp add: results_defs act_defs http_defs example_defs)

lemma orphan_reconcile_eval:
  "reconcile orphan_env [''sid'' \<mapsto> ''s1''] (world0 []) =
     (Inr (), \<lparr>engine = [JStr ''s1''], sent = [PostSession (JStr ''s1'')], items = [], errlog = []\<rparr>)"
  by (simp add: results_defs act_defs http_defs example_defs)

lemma no_results_reconcile_eval:
  "reconcile no_results_env [''sid'' \<mapsto> ''s1''] (world0 []) =
     (Inr (), \<lparr>engine = [JStr ''s1''], sent = [PostSession (JStr ''s1'')], items = [], errlog = []\<rparr>)"
  by (simp add: results_defs act_defs http_defs example_defs)

lemma refine_eval:
  "refine (example_env n) refine_body (world0 [session_item]) =
     (Inr (JObj []),
      \<lparr>engine = [JStr ''s1''],
       sent = [PostSession (JStr ''s1''),
               PutRefine (JStr ''s1'') (JArr [JStr ''p1'']) (JArr [JStr ''n1''])],
       items = [session_item], errlog = []\<rparr>)"
  by (simp add: refine_def results_defs act_defs http_defs spec_env_def example_env_def world0_def
      spec_post_session_def requests_post_def response_ok_def refine_body_def)


subsection \<open>The merge: dict, order of the page\<close>

text \<open>
  Claim C7. For every sequence of ranked entries, duplicates included, the dict of line
  165 is built (\<open>py_dict\<close> is a total function: \<^verbatim>\<open>dict\<close> of a list of pairs with string
  keys has no exception), and the confidence it keeps for a checksum is the one of the
  checksum's last occurrence: if the entry at index \<open>i\<close> has the checksum \<open>k\<close> and no
  later entry has, the dict maps \<open>k\<close> to the confidence of entry \<open>i\<close>; a checksum that
  no entry has is not in the dict.
\<close>

theorem py_dict_last_write_wins:
  "(\<forall>i. i < length es \<and> fst (es ! i) = k \<and>
        (\<forall>j. i < j \<and> j < length es \<longrightarrow> fst (es ! j) \<noteq> k)
        \<longrightarrow> py_dict es k = Some (snd (es ! i))) \<and>
   (k \<notin> fst ` set es \<longrightarrow> py_dict es k = None)"
proof (intro conjI allI impI)
  fix i
  assume "i < length es \<and> fst (es ! i) = k \<and>
        (\<forall>j. i < j \<and> j < length es \<longrightarrow> fst (es ! j) \<noteq> k)"
  then show "py_dict es k = Some (snd (es ! i))"
    using py_dict_last [of i es k] by blast
next
  assume "k \<notin> fst ` set es"
  then have "k \<notin> dom (py_dict es)" by (simp add: py_dict_dom)
  then show "py_dict es k = None" by blast
qed

theorem py_dict_last_write_wins_witness:
  "py_dict [(''a1'', 1 / 10), (''a2'', 5 / 10), (''a1'', 9 / 10 :: real)] ''a1'' = Some (9 / 10) \<and>
   py_dict [(''a1'', 1 / 10), (''a2'', 5 / 10), (''a1'', 9 / 10 :: real)] ''a3'' = None"
proof -
  let ?es = "[(''a1'', 1 / 10), (''a2'', 5 / 10), (''a1'', 9 / 10 :: real)]"
  have last: "2 < length ?es \<and> fst (?es ! 2) = ''a1'' \<and>
      (\<forall>j. 2 < j \<and> j < length ?es \<longrightarrow> fst (?es ! j) \<noteq> ''a1'')"
    by auto
  have none: "''a3'' \<notin> fst ` set ?es"
    by simp
  from py_dict_last_write_wins [of ?es "''a1''"] last
  have "py_dict ?es ''a1'' = Some (snd (?es ! 2))" by blast
  moreover from py_dict_last_write_wins [of ?es "''a3''"] none
  have "py_dict ?es ''a3'' = None" by blast
  ultimately show ?thesis by simp
qed



text \<open>
  Claim C6, as amended. On the example of the specification (ranked entries
  \<^verbatim>\<open>("a1", 0.9)\<close>, \<^verbatim>\<open>("a2", 0.9)\<close>, \<^verbatim>\<open>("a3", 0.1)\<close>; \<^verbatim>\<open>a1\<close> resolving to a
  document with the checksum \<^verbatim>\<open>"a1"\<close>, \<^verbatim>\<open>a2\<close> to a document with the checksums
  \<^verbatim>\<open>["a2", "a9"]\<close>, \<^verbatim>\<open>a3\<close> to none), \<^verbatim>\<open>results\<close> returns the engine's
  \<^verbatim>\<open>total_results\<close> and the documents in the order Doc(a2), Doc(a1), each with the
  confidence 0.9: the tie between them is broken by checksum descending, and
  \<^verbatim>\<open>"a2" > "a1"\<close>. No document stands for \<^verbatim>\<open>a3\<close>, and one line is logged.
\<close>

theorem results_example:
  "results (example_env n) [''sid'' \<mapsto> ''s1''] (world0 []) =
     (Inr \<lparr>numFound = n,
           docs = [\<lparr>doc_id = ''Doc(a2)'', sha1sum_s_md = Multi [''a2'', ''a9''],
                    smqtk_iqr_confidence = Some (9 / 10)\<rparr>,
                   \<lparr>doc_id = ''Doc(a1)'', sha1sum_s_md = Single ''a1'',
                    smqtk_iqr_confidence = Some (9 / 10)\<rparr>]\<rparr>,
      \<lparr>engine = [JStr ''s1''],
       sent = [PostSession (JStr ''s1''), GetResults ''s1'' 0 20],
       items = [],
       errlog = [''SID s1: There are SMQTK descriptors that have no corresponding Solr document(s).'']\<rparr>)"
  by (simp add: example_results_eval doc_a1_def doc_a2_def)

text \<open>
  Claim C6 as stated has the documents in the order Doc(a1), Doc(a2). The page returned
  on the example has them in the other order.
\<close>

theorem results_example_order_counterexample:
  "fst (results (example_env 3) [''sid'' \<mapsto> ''s1''] (world0 [])) =
     Inr \<lparr>numFound = 3,
          docs = [doc_a2\<lparr>smqtk_iqr_confidence := Some (9 / 10)\<rparr>,
                  doc_a1\<lparr>smqtk_iqr_confidence := Some (9 / 10)\<rparr>]\<rparr> \<and>
   map doc_id [doc_a2\<lparr>smqtk_iqr_confidence := Some (9 / 10)\<rparr>,
               doc_a1\<lparr>smqtk_iqr_confidence := Some (9 / 10)\<rparr>] \<noteq> [''Doc(a1)'', ''Doc(a2)'']"
  by (simp add: example_results_eval doc_a1_def doc_a2_def)

subsection \<open>The merge: a document without a confidence\<close>

text \<open>
  Claim C1, as amended. Take a \<^verbatim>\<open>results\<close> call that reaches the merge: the
  parameters are read, the reconciliation returns, the engine answers the fetch with
  ranked entries \<open>es\<close>, and the index resolves them to the documents \<open>ds\<close>. Then
  \<^item> the only diagnostic is one line that names the session (no checksum), written
    exactly when fewer documents than ranked entries were resolved;
  \<^item> if some resolved document's representative checksum has no entry in the
    checksum-to-confidence dict, the request fails, with the exception of the first
    document that the loop cannot serve: \<^verbatim>\<open>KeyError\<close> when a document without an entry
    is reached and no document before it has an empty checksum list, \<^verbatim>\<open>IndexError\<close> when
    a document with an empty checksum list is reached and every document before it has
    an entry;
  \<^item> so the documents of a returned page are, up to their order, all the resolved
    documents, each with the confidence that the dict has for its representative
    checksum: no document is left out.
\<close>

theorem results_missing_confidence:
  assumes "param_int env params ''offset'' 0 = Inr off"
    and "param_int env params ''limit'' 20 = Inr lmt"
    and "reconcile env params w = (Inr u, w1)"
    and "params ''sid'' = Some sid"
    and "get_results env (engine w1) sid off (off + lmt) = (Inr resp, e2)"
    and "results_field resp = Some es"
    and "solr_documents_from_field env ''sha1sum_s_md'' (map fst es) = Inr ds"
  shows "errlog (snd (results env params w)) = errlog w @
       (if length ds < length es
        then [''SID '' @ sid @
              '': There are SMQTK descriptors that have no corresponding Solr document(s).'']
        else []) \<and>
     ((\<exists>d \<in> set ds. \<exists>k. checksum_key (sha1sum_s_md d) = Inr k \<and> py_dict es k = None) \<longrightarrow>
        fst (results env params w) = Inl KeyError \<or> fst (results env params w) = Inl IndexError) \<and>
     (\<forall>i k. i < length ds \<and> checksum_key (sha1sum_s_md (ds ! i)) = Inr k \<and>
        py_dict es k = None \<and> (\<forall>j<i. sha1sum_s_md (ds ! j) \<noteq> Multi []) \<longrightarrow>
        fst (results env params w) = Inl KeyError) \<and>
     (\<forall>i. i < length ds \<and> sha1sum_s_md (ds ! i) = Multi [] \<and>
        (\<forall>j<i. \<exists>k c. checksum_key (sha1sum_s_md (ds ! j)) = Inr k \<and> py_dict es k = Some c) \<longrightarrow>
        fst (results env params w) = Inl IndexError) \<and>
     (\<forall>pg. fst (results env params w) = Inr pg \<longrightarrow>
        (\<exists>ds'. mset (docs pg) = mset ds' \<and>
           list_all2 (\<lambda>d d'. \<exists>k c. checksum_key (sha1sum_s_md d) = Inr k \<and>
              py_dict es k = Some c \<and> d' = d\<lparr>smqtk_iqr_confidence := Some c\<rparr>) ds ds'))"
proof -
  let ?w2 = "w1\<lparr>engine := e2, sent := sent w1 @ [GetResults sid off (off + lmt)]\<rparr>"
  have res: "results env params w = merge_page env sid resp ?w2"
    using results_fetched [OF assms(1,2,3,5,4)] by simp
  obtain r w' where m: "merge_page env sid resp ?w2 = (r, w')"
    by (cases "merge_page env sid resp ?w2")
  have log: "errlog w1 = errlog w"
    using reconcile_frame [OF assms(3)] by simp
  have 1: "errlog (snd (results env params w)) = errlog w @
       (if length ds < length es
        then [''SID '' @ sid @
              '': There are SMQTK descriptors that have no corresponding Solr document(s).'']
        else [])"
    using merge_page_errlog [OF assms(6,7) m] log by (simp add: res m)
  have 2: "fst (results env params w) = Inl KeyError \<or> fst (results env params w) = Inl IndexError"
    if "\<exists>d \<in> set ds. \<exists>k. checksum_key (sha1sum_s_md d) = Inr k \<and> py_dict es k = None"
  proof -
    from that attach_confidence_missing obtain e
      where e: "attach_confidence (py_dict es) ds = Inl e" by blast
    from merge_page_raises [OF assms(6,7) e] have "fst (results env params w) = Inl e"
      by (simp add: res)
    with attach_confidence_Inl [OF e] show ?thesis by auto
  qed
  have 3: "\<exists>ds'. mset (docs pg) = mset ds' \<and>
           list_all2 (\<lambda>d d'. \<exists>k c. checksum_key (sha1sum_s_md d) = Inr k \<and>
              py_dict es k = Some c \<and> d' = d\<lparr>smqtk_iqr_confidence := Some c\<rparr>) ds ds'"
    if "fst (results env params w) = Inr pg" for pg
  proof -
    from that have "merge_page env sid resp ?w2 = (Inr pg, w')"
      by (simp add: res m)
    from merge_page_Inr_resolved [OF assms(6,7) this] obtain ds'
      where att: "attach_confidence (py_dict es) ds = Inr ds'"
        and srt: "py_sorted sort_key_of True ds' = Inr (docs pg)"
      by auto
    from attach_confidence_Inr [OF att] py_sorted_mset [OF srt] show ?thesis
      by blast
  qed
  have 4: "fst (results env params w) = Inl KeyError"
    if "i < length ds \<and> checksum_key (sha1sum_s_md (ds ! i)) = Inr k \<and>
        py_dict es k = None \<and> (\<forall>j<i. sha1sum_s_md (ds ! j) \<noteq> Multi [])" for i k
  proof -
    from that have "attach_confidence (py_dict es) ds = Inl KeyError"
      using attach_confidence_KeyError [of i ds k "py_dict es"] by blast
    from merge_page_raises [OF assms(6,7) this] show ?thesis
      by (simp add: res)
  qed
  have 5: "fst (results env params w) = Inl IndexError"
    if "i < length ds \<and> sha1sum_s_md (ds ! i) = Multi [] \<and>
        (\<forall>j<i. \<exists>k c. checksum_key (sha1sum_s_md (ds ! j)) = Inr k \<and> py_dict es k = Some c)"
    for i
  proof -
    from that have "attach_confidence (py_dict es) ds = Inl IndexError"
      using attach_confidence_IndexError [of i ds "py_dict es"] by blast
    from merge_page_raises [OF assms(6,7) this] show ?thesis
      by (simp add: res)
  qed
  from 1 2 3 4 5 show ?thesis by blast
qed

theorem results_missing_confidence_witness:
  "fst (results orphan_env [''sid'' \<mapsto> ''s1''] (world0 [])) = Inl KeyError \<and>
   errlog (snd (results orphan_env [''sid'' \<mapsto> ''s1''] (world0 []))) = []"
proof -
  let ?w1 = "\<lparr>engine = [JStr ''s1''], sent = [PostSession (JStr ''s1'')], items = [],
             errlog = []\<rparr> :: json list world"
  let ?resp = "\<lparr>total_results = Some 2, results_field = Some [(''a1'', 9 / 10)]\<rparr>"
  have a1: "param_int orphan_env [''sid'' \<mapsto> ''s1''] ''offset'' 0 = Inr 0"
    by (simp add: param_int_def)
  have a2: "param_int orphan_env [''sid'' \<mapsto> ''s1''] ''limit'' 20 = Inr 20"
    by (simp add: param_int_def)
  have a4: "[''sid'' \<mapsto> ''s1''] ''sid'' = Some ''s1''"
    by simp
  have a5: "get_results orphan_env (engine ?w1) ''s1'' 0 (0 + 20) = (Inr ?resp, [JStr ''s1''])"
    by (simp add: example_defs)
  have a6: "results_field ?resp = Some [(''a1'', 9 / 10)]"
    by simp
  have a7: "solr_documents_from_field orphan_env ''sha1sum_s_md'' (map fst [(''a1'', 9 / 10 :: real)])
      = Inr [doc_a1, doc_zz]"
    by (simp add: example_defs)
  have missing: "1 < length [doc_a1, doc_zz] \<and>
      checksum_key (sha1sum_s_md ([doc_a1, doc_zz] ! 1)) = Inr ''zz'' \<and>
      py_dict [(''a1'', 9 / 10 :: real)] ''zz'' = None \<and>
      (\<forall>j<1. sha1sum_s_md ([doc_a1, doc_zz] ! j) \<noteq> Multi [])"
    by (simp add: example_defs py_dict_def)
  note inst = results_missing_confidence [OF a1 a2 orphan_reconcile_eval a4 a5 a6 a7]
  from inst have "errlog (snd (results orphan_env [''sid'' \<mapsto> ''s1''] (world0 []))) =
      errlog (world0 [] :: json list world) @
       (if length [doc_a1, doc_zz] < length [(''a1'', 9 / 10 :: real)]
        then [''SID '' @ ''s1'' @
              '': There are SMQTK descriptors that have no corresponding Solr document(s).'']
        else [])"
    by (rule conjunct1)
  then have log: "errlog (snd (results orphan_env [''sid'' \<mapsto> ''s1''] (world0 []))) = []"
    by (simp add: world0_def)
  from inst missing
  have "fst (results orphan_env [''sid'' \<mapsto> ''s1''] (world0 [])) = Inl KeyError"
    by blast
  with log show ?thesis
    by blast
qed

text \<open>
  Claim C1 as stated has the request succeed, the document left out and one diagnostic
  for its checksum. Here the index returns a document whose first checksum \<^verbatim>\<open>zz\<close> the
  engine did not rank: the request raises \<^verbatim>\<open>KeyError\<close>, and nothing is logged.
\<close>

theorem results_missing_confidence_counterexample:
  "results orphan_env [''sid'' \<mapsto> ''s1''] (world0 []) =
     (Inl KeyError,
      \<lparr>engine = [JStr ''s1''],
       sent = [PostSession (JStr ''s1''), GetResults ''s1'' 0 20],
       items = [], errlog = []\<rparr>)"
  by (simp add: orphan_results_eval)

subsection \<open>The fetch without ranking data\<close>

text \<open>
  Claim C5. Take a \<^verbatim>\<open>results\<close> call whose fetch is answered by the engine with an
  object that has no \<^verbatim>\<open>results\<close> key (the parameters were read and the
  reconciliation returned). The call returns the page with \<^verbatim>\<open>numFound\<close> 0 and no
  documents; no exception reaches the caller.
\<close>

theorem results_degraded_page:
  assumes "param_int env params ''offset'' 0 = Inr off"
    and "param_int env params ''limit'' 20 = Inr lmt"
    and "reconcile env params w = (Inr u, w1)"
    and "params ''sid'' = Some sid"
    and "get_results env (engine w1) sid off (off + lmt) = (Inr resp, e2)"
    and "results_field resp = None"
  shows "fst (results env params w) = Inr \<lparr>numFound = 0, docs = []\<rparr>"
  using results_fetched [OF assms(1,2,3,5,4)] assms(6)
  by (simp add: merge_page_def ret_def)

theorem results_degraded_page_witness:
  "fst (results no_results_env [''sid'' \<mapsto> ''s1''] (world0 [])) = Inr \<lparr>numFound = 0, docs = []\<rparr>"
proof -
  let ?w1 = "\<lparr>engine = [JStr ''s1''], sent = [PostSession (JStr ''s1'')], items = [],
             errlog = []\<rparr> :: json list world"
  let ?resp = "\<lparr>total_results = None, results_field = None\<rparr>"
  have a1: "param_int no_results_env [''sid'' \<mapsto> ''s1''] ''offset'' 0 = Inr 0"
    by (simp add: param_int_def)
  have a2: "param_int no_results_env [''sid'' \<mapsto> ''s1''] ''limit'' 20 = Inr 20"
    by (simp add: param_int_def)
  have a4: "[''sid'' \<mapsto> ''s1''] ''sid'' = Some ''s1''"
    by simp
  have a5: "get_results no_results_env (engine ?w1) ''s1'' 0 (0 + 20) = (Inr ?resp, [JStr ''s1''])"
    by (simp add: example_defs)
  have a6: "results_field ?resp = None"
    by simp
  show ?thesis
    by (rule results_degraded_page [OF a1 a2 no_results_reconcile_eval a4 a5 a6])
qed

subsection \<open>Refine and the session store\<close>

text \<open>
  Claim C3, as amended. A \<^verbatim>\<open>refine\<close> call never changes the items of the sessions
  folder: whatever it returns, the stored record of the session is as it was. When the
  call succeeds, it has sent to the engine one \<^verbatim>\<open>POST /session\<close> and then one
  \<^verbatim>\<open>PUT /refine\<close> that carries exactly the submitted sid and uuid lists, and what it
  returns is the engine's response to that \<^verbatim>\<open>PUT /refine\<close>. And it succeeds, with that
  response, whenever the body has the three keys and the engine answers both requests.
\<close>

theorem refine_leaves_store:
  "items (snd (refine env body w)) = items w \<and>
   (\<forall>x. fst (refine env body w) = Inr x \<longrightarrow>
      (\<exists>sid pos neg b e1 e2. body ''sid'' = Some sid \<and> body ''pos_uuids'' = Some pos \<and>
         body ''neg_uuids'' = Some neg \<and>
         post_session env (engine w) sid = (Inr b, e1) \<and>
         put_refine env e1 sid pos neg = (Inr x, e2) \<and>
         sent (snd (refine env body w)) = sent w @ [PostSession sid, PutRefine sid pos neg])) \<and>
   (\<forall>sid pos neg b e1 x e2. body ''sid'' = Some sid \<and> body ''pos_uuids'' = Some pos \<and>
         body ''neg_uuids'' = Some neg \<and>
         post_session env (engine w) sid = (Inr b, e1) \<and>
         put_refine env e1 sid pos neg = (Inr x, e2) \<longrightarrow>
      fst (refine env body w) = Inr x)"
proof -
  obtain r w' where rw: "private_refine env body w = (r, w')"
    by (cases "private_refine env body w")
  from private_refine_frame [OF rw] have 1: "items (snd (refine env body w)) = items w"
    by (simp add: refine_def rw)
  have 2: "\<exists>sid pos neg b e1 e2. body ''sid'' = Some sid \<and> body ''pos_uuids'' = Some pos \<and>
         body ''neg_uuids'' = Some neg \<and>
         post_session env (engine w) sid = (Inr b, e1) \<and>
         put_refine env e1 sid pos neg = (Inr x, e2) \<and>
         sent (snd (refine env body w)) = sent w @ [PostSession sid, PutRefine sid pos neg]"
    if "fst (refine env body w) = Inr x" for x
  proof -
    from that rw have "private_refine env body w = (Inr x, w')"
      by (simp add: refine_def)
    from private_refine_Inr_response [OF this] show ?thesis
      by (simp add: refine_def rw)
  qed
  have 3: "fst (refine env body w) = Inr x"
    if "body ''sid'' = Some sid \<and> body ''pos_uuids'' = Some pos \<and>
         body ''neg_uuids'' = Some neg \<and>
         post_session env (engine w) sid = (Inr b, e1) \<and>
         put_refine env e1 sid pos neg = (Inr x, e2)" for sid pos neg b e1 x e2
    using that by (simp add: refine_def private_refine_def act_defs http_defs)
  from 1 2 3 show ?thesis by blast
qed

theorem refine_leaves_store_witness:
  "items (snd (refine (example_env 3) refine_body (world0 [session_item]))) = [session_item] \<and>
   fst (refine (example_env 3) refine_body (world0 [session_item])) = Inr (JObj []) \<and>
   sent (snd (refine (example_env 3) refine_body (world0 [session_item]))) =
     [PostSession (JStr ''s1''),
      PutRefine (JStr ''s1'') (JArr [JStr ''p1'']) (JArr [JStr ''n1''])]"
proof -
  let ?env = "example_env 3"
  let ?w = "world0 [session_item] :: json list world"
  note inst = refine_leaves_store [of ?env refine_body ?w]
  from inst have "items (snd (refine ?env refine_body ?w)) = items ?w"
    by (rule conjunct1)
  then have a: "items (snd (refine ?env refine_body ?w)) = [session_item]"
    by (simp add: world0_def)
  have answered: "refine_body ''sid'' = Some (JStr ''s1'') \<and>
      refine_body ''pos_uuids'' = Some (JArr [JStr ''p1'']) \<and>
      refine_body ''neg_uuids'' = Some (JArr [JStr ''n1'']) \<and>
      post_session ?env (engine ?w) (JStr ''s1'') = (Inr True, [JStr ''s1'']) \<and>
      put_refine ?env [JStr ''s1''] (JStr ''s1'') (JArr [JStr ''p1'']) (JArr [JStr ''n1'']) =
        (Inr (JObj []), [JStr ''s1''])"
    by (simp add: example_defs)
  from inst answered have b: "fst (refine ?env refine_body ?w) = Inr (JObj [])"
    by blast
  from inst b obtain sid pos neg where
    "refine_body ''sid'' = Some sid" "refine_body ''pos_uuids'' = Some pos"
    "refine_body ''neg_uuids'' = Some neg"
    "sent (snd (refine ?env refine_body ?w)) = sent ?w @ [PostSession sid, PutRefine sid pos neg]"
    by blast
  then have "sent (snd (refine ?env refine_body ?w)) =
     [PostSession (JStr ''s1''),
      PutRefine (JStr ''s1'') (JArr [JStr ''p1'']) (JArr [JStr ''n1''])]"
    by (simp add: refine_body_def world0_def)
  with a b show ?thesis by blast
qed

text \<open>
  Claim C3 as stated has the stored record equal the submitted sets after a successful
  refine. Here the refine of \<^verbatim>\<open>p1\<close> and \<^verbatim>\<open>n1\<close> succeeds, and the record still holds
  \<^verbatim>\<open>p0\<close> and \<^verbatim>\<open>n0\<close>.
\<close>

theorem refine_write_through_counterexample:
  "fst (refine (example_env 3) refine_body (world0 [session_item])) = Inr (JObj []) \<and>
   refine_body ''pos_uuids'' = Some (JArr [JStr ''p1'']) \<and>
   refine_body ''neg_uuids'' = Some (JArr [JStr ''n1'']) \<and>
   items (snd (refine (example_env 3) refine_body (world0 [session_item]))) = [session_item] \<and>
   meta session_item ''pos_uuids'' = Some (JArr [JStr ''p0'']) \<and>
   meta session_item ''neg_uuids'' = Some (JArr [JStr ''n0''])"
  by (simp add: refine_eval) (simp add: refine_body_def session_item_def)

subsection \<open>The engine session and the reconciliation\<close>




text \<open>
  Claim C4. Take a \<^verbatim>\<open>results\<close> call whose parameters are read and to which the
  engine reports the session absent (its \<^verbatim>\<open>POST /session\<close> succeeds). If the sessions
  folder has a record of the session with stored positive and negative uuids, then
  \<^item> whatever the engine answers afterwards, a fetch is sent only at the end of these
    requests, in this order: the \<^verbatim>\<open>POST /session\<close> of the check, the
    \<^verbatim>\<open>POST /session\<close> of the refine, one \<^verbatim>\<open>PUT /refine\<close> carrying exactly the stored
    uuids, and the fetch;
  \<^item> when the engine answers the two requests of the refine, these four requests are
    what the call sends.
  If there is no record, no refine is sent: the check is followed by the fetch.
\<close>

theorem results_replays_stored_labels:
  assumes "params ''sid'' = Some sid"
    and "param_int env params ''offset'' 0 = Inr off"
    and "param_int env params ''limit'' 20 = Inr lmt"
    and "post_session env (engine w) (JStr sid) = (Inr True, e1)"
  shows "(\<forall>it p n.
            find (\<lambda>it. meta it ''sid'' = Some (JStr sid)) (items w) = Some it \<and>
            meta it ''pos_uuids'' = Some p \<and> meta it ''neg_uuids'' = Some n \<longrightarrow>
            (\<forall>tr s i j. sent (snd (results env params w)) = sent w @ tr \<and>
               GetResults s i j \<in> set tr \<longrightarrow>
               tr = [PostSession (JStr sid), PostSession (JStr sid),
                     PutRefine (JStr sid) p n, GetResults sid off (off + lmt)]) \<and>
            (\<forall>b e2 r e3. post_session env e1 (JStr sid) = (Inr b, e2) \<and>
               put_refine env e2 (JStr sid) p n = (Inr r, e3) \<longrightarrow>
               sent (snd (results env params w)) =
                 sent w @ [PostSession (JStr sid), PostSession (JStr sid),
                           PutRefine (JStr sid) p n, GetResults sid off (off + lmt)])) \<and>
         (find (\<lambda>it. meta it ''sid'' = Some (JStr sid)) (items w) = None \<longrightarrow>
            sent (snd (results env params w)) =
              sent w @ [PostSession (JStr sid), GetResults sid off (off + lmt)])"
proof (intro conjI allI impI)
  fix it p n tr s i j
  assume rec: "find (\<lambda>it. meta it ''sid'' = Some (JStr sid)) (items w) = Some it \<and>
            meta it ''pos_uuids'' = Some p \<and> meta it ''neg_uuids'' = Some n"
    and tr: "sent (snd (results env params w)) = sent w @ tr \<and> GetResults s i j \<in> set tr"
  consider (early) e where
        "param_int env params ''offset'' 0 = Inl e \<or> param_int env params ''limit'' 20 = Inl e"
    | (raised) e w1 where "reconcile env params w = (Inl e, w1)"
        "sent (snd (results env params w)) = sent w1"
    | (fetched) offset limit u w1 sid' where
        "param_int env params ''offset'' 0 = Inr offset"
        "param_int env params ''limit'' 20 = Inr limit"
        "reconcile env params w = (Inr u, w1)" "params ''sid'' = Some sid'"
        "sent (snd (results env params w)) = sent w1 @ [GetResults sid' offset (offset + limit)]"
    using results_sent_cases [of env params w] by blast
  then show "tr = [PostSession (JStr sid), PostSession (JStr sid),
                   PutRefine (JStr sid) p n, GetResults sid off (off + lmt)]"
  proof cases
    case early
    with assms(2,3) show ?thesis by auto
  next
    case raised
    from reconcile_sent [OF raised(1)] raised(2) tr show ?thesis
      by auto
  next
    case fetched
    from fetched(1,2,4) assms(1,2,3) have eq: "offset = off" "limit = lmt" "sid' = sid"
      by auto
    from rec reconcile_replay_Inr [where params = params, OF assms(1,4) _ _ _ fetched(3)]
    have "sent w1 = sent w @ [PostSession (JStr sid), PostSession (JStr sid),
                             PutRefine (JStr sid) p n]"
      by blast
    with fetched(5) tr eq show ?thesis by simp
  qed
next
  fix it p n b e2 r e3
  assume "find (\<lambda>it. meta it ''sid'' = Some (JStr sid)) (items w) = Some it \<and>
            meta it ''pos_uuids'' = Some p \<and> meta it ''neg_uuids'' = Some n"
    and "post_session env e1 (JStr sid) = (Inr b, e2) \<and>
            put_refine env e2 (JStr sid) p n = (Inr r, e3)"
  then have "reconcile env params w =
     (Inr (), w\<lparr>engine := e3,
                sent := sent w @ [PostSession (JStr sid), PostSession (JStr sid),
                                  PutRefine (JStr sid) p n]\<rparr>)"
    using reconcile_replay_sent [where params = params, OF assms(1,4)] by blast
  from results_sent [OF assms(2,3) this assms(1)]
  show "sent (snd (results env params w)) =
              sent w @ [PostSession (JStr sid), PostSession (JStr sid),
                        PutRefine (JStr sid) p n, GetResults sid off (off + lmt)]"
    by simp
next
  assume "find (\<lambda>it. meta it ''sid'' = Some (JStr sid)) (items w) = None"
  from results_sent [OF assms(2,3) reconcile_no_record [where params = params, OF assms(1,4) this] assms(1)]
  show "sent (snd (results env params w)) =
              sent w @ [PostSession (JStr sid), GetResults sid off (off + lmt)]"
    by simp
qed

theorem results_replays_stored_labels_witness:
  "sent (snd (results (example_env 3) [''sid'' \<mapsto> ''s1''] (world0 [session_item]))) =
     [PostSession (JStr ''s1''), PostSession (JStr ''s1''),
      PutRefine (JStr ''s1'') (JArr [JStr ''p0'']) (JArr [JStr ''n0'']),
      GetResults ''s1'' 0 20] \<and>
   sent (snd (results (example_env 3) [''sid'' \<mapsto> ''s1''] (world0 []))) =
     [PostSession (JStr ''s1''), GetResults ''s1'' 0 20]"
proof -
  let ?env = "example_env 3"
  let ?p = "[''sid'' \<mapsto> ''s1'']"
  have off: "param_int ?env ?p ''offset'' 0 = Inr 0"
    by (simp add: param_int_def)
  have lmt: "param_int ?env ?p ''limit'' 20 = Inr 20"
    by (simp add: param_int_def)
  have sid: "?p ''sid'' = Some ''s1''"
    by simp
  have post1: "post_session ?env (engine (world0 [session_item])) (JStr ''s1'') =
      (Inr True, [JStr ''s1''])"
    by (simp add: example_defs)
  have post0: "post_session ?env (engine (world0 [])) (JStr ''s1'') = (Inr True, [JStr ''s1''])"
    by (simp add: example_defs)
  have found: "find (\<lambda>it. meta it ''sid'' = Some (JStr ''s1'')) (items (world0 [session_item])
       :: item list) = Some session_item \<and>
     meta session_item ''pos_uuids'' = Some (JArr [JStr ''p0'']) \<and>
     meta session_item ''neg_uuids'' = Some (JArr [JStr ''n0''])"
    by (simp add: example_defs)
  have answers: "post_session ?env [JStr ''s1''] (JStr ''s1'') = (Inr False, [JStr ''s1'']) \<and>
     put_refine ?env [JStr ''s1''] (JStr ''s1'') (JArr [JStr ''p0'']) (JArr [JStr ''n0'']) =
       (Inr (JObj []), [JStr ''s1''])"
    by (simp add: example_defs)
  have none: "find (\<lambda>it. meta it ''sid'' = Some (JStr ''s1'')) (items (world0 []) :: item list) = None"
    by (simp add: world0_def)
  from results_replays_stored_labels [where params = ?p, OF sid off lmt post1] found answers
  have "sent (snd (results ?env ?p (world0 [session_item]))) =
      sent (world0 [session_item] :: json list world) @
        [PostSession (JStr ''s1''), PostSession (JStr ''s1''),
         PutRefine (JStr ''s1'') (JArr [JStr ''p0'']) (JArr [JStr ''n0'']),
         GetResults ''s1'' 0 (0 + 20)]"
    by blast
  moreover from results_replays_stored_labels [where params = ?p, OF sid off lmt post0] none
  have "sent (snd (results ?env ?p (world0 []))) =
      sent (world0 [] :: json list world) @ [PostSession (JStr ''s1''), GetResults ''s1'' 0 (0 + 20)]"
    by blast
  ultimately show ?thesis
    by (simp add: world0_def)
qed

text \<open>
  Claim C9. Take a \<^verbatim>\<open>results\<close> call to which the engine reports the session absent,
  with a record of the session in the sessions folder. If the record's metadata has both
  \<^verbatim>\<open>pos_uuids\<close> and \<^verbatim>\<open>neg_uuids\<close>, the reconciliation is the call of \<^verbatim>\<open>_refine\<close>
  with the sid and these two values, whatever they are (empty lists included). If one of
  the two keys is missing, the reconciliation raises \<^verbatim>\<open>KeyError\<close> before anything of
  the refine is sent, and the whole request fails (with this \<^verbatim>\<open>KeyError\<close>, when the
  parameters \<^verbatim>\<open>offset\<close> and \<^verbatim>\<open>limit\<close> were read).
\<close>

theorem reconcile_replay_unconditional:
  assumes "params ''sid'' = Some sid"
    and "post_session env (engine w) (JStr sid) = (Inr True, e1)"
    and "find (\<lambda>it. meta it ''sid'' = Some (JStr sid)) (items w) = Some it"
  shows "(\<forall>p n. meta it ''pos_uuids'' = Some p \<and> meta it ''neg_uuids'' = Some n \<longrightarrow>
            reconcile env params w =
              andthen (private_refine env
                         [''sid'' \<mapsto> JStr sid, ''pos_uuids'' \<mapsto> p, ''neg_uuids'' \<mapsto> n])
                (\<lambda>_. ret ()) (w\<lparr>engine := e1, sent := sent w @ [PostSession (JStr sid)]\<rparr>)) \<and>
         (meta it ''pos_uuids'' = None \<or> meta it ''neg_uuids'' = None \<longrightarrow>
            reconcile env params w =
              (Inl KeyError, w\<lparr>engine := e1, sent := sent w @ [PostSession (JStr sid)]\<rparr>) \<and>
            (\<exists>e. fst (results env params w) = Inl e) \<and>
            (\<forall>off lmt. param_int env params ''offset'' 0 = Inr off \<and>
                       param_int env params ''limit'' 20 = Inr lmt \<longrightarrow>
               results env params w =
                 (Inl KeyError, w\<lparr>engine := e1, sent := sent w @ [PostSession (JStr sid)]\<rparr>)))"
proof (intro conjI allI impI)
  fix p n
  assume "meta it ''pos_uuids'' = Some p \<and> meta it ''neg_uuids'' = Some n"
  then show "reconcile env params w =
              andthen (private_refine env
                         [''sid'' \<mapsto> JStr sid, ''pos_uuids'' \<mapsto> p, ''neg_uuids'' \<mapsto> n])
                (\<lambda>_. ret ()) (w\<lparr>engine := e1, sent := sent w @ [PostSession (JStr sid)]\<rparr>)"
    using reconcile_replay [where params = params, OF assms] by blast
next
  assume m: "meta it ''pos_uuids'' = None \<or> meta it ''neg_uuids'' = None"
  note rec = reconcile_missing_key [where params = params, OF assms m]
  show "reconcile env params w =
      (Inl KeyError, w\<lparr>engine := e1, sent := sent w @ [PostSession (JStr sid)]\<rparr>)"
    by (rule rec)
  show "\<exists>e. fst (results env params w) = Inl e"
    by (rule results_reconcile_raises [OF rec])
  fix off lmt
  assume "param_int env params ''offset'' 0 = Inr off \<and>
          param_int env params ''limit'' 20 = Inr lmt"
  then show "results env params w =
      (Inl KeyError, w\<lparr>engine := e1, sent := sent w @ [PostSession (JStr sid)]\<rparr>)"
    using results_reconcile_raises_exact [OF _ _ rec] by blast
qed

theorem reconcile_replay_unconditional_witness:
  "sent (snd (reconcile (example_env 3) [''sid'' \<mapsto> ''s1''] (world0 [unlabelled_item]))) =
     [PostSession (JStr ''s1''), PostSession (JStr ''s1''),
      PutRefine (JStr ''s1'') (JArr []) (JArr [])] \<and>
   results (example_env 3) [''sid'' \<mapsto> ''s1''] (world0 [bare_item]) =
     (Inl KeyError,
      \<lparr>engine = [JStr ''s1''], sent = [PostSession (JStr ''s1'')], items = [bare_item],
       errlog = []\<rparr>)"
proof -
  let ?env = "example_env 3"
  let ?p = "[''sid'' \<mapsto> ''s1'']"
  have off: "param_int ?env ?p ''offset'' 0 = Inr 0 \<and> param_int ?env ?p ''limit'' 20 = Inr 20"
    by (simp add: param_int_def)
  have sid: "?p ''sid'' = Some ''s1''"
    by simp
  have post1: "post_session ?env (engine (world0 [unlabelled_item])) (JStr ''s1'') =
      (Inr True, [JStr ''s1''])"
    by (simp add: example_defs)
  have post2: "post_session ?env (engine (world0 [bare_item])) (JStr ''s1'') =
      (Inr True, [JStr ''s1''])"
    by (simp add: example_defs)
  have found1: "find (\<lambda>it. meta it ''sid'' = Some (JStr ''s1''))
      (items (world0 [unlabelled_item]) :: item list) = Some unlabelled_item"
    by (simp add: world0_def unlabelled_item_def)
  have found2: "find (\<lambda>it. meta it ''sid'' = Some (JStr ''s1''))
      (items (world0 [bare_item]) :: item list) = Some bare_item"
    by (simp add: world0_def bare_item_def)
  have labels: "meta unlabelled_item ''pos_uuids'' = Some (JArr []) \<and>
      meta unlabelled_item ''neg_uuids'' = Some (JArr [])"
    by (simp add: unlabelled_item_def)
  have missing: "meta bare_item ''pos_uuids'' = None \<or> meta bare_item ''neg_uuids'' = None"
    by (simp add: bare_item_def)
  from reconcile_replay_unconditional [where params = ?p, OF sid post1 found1] labels
  have "reconcile ?env ?p (world0 [unlabelled_item]) =
      andthen (private_refine ?env
                 [''sid'' \<mapsto> JStr ''s1'', ''pos_uuids'' \<mapsto> JArr [], ''neg_uuids'' \<mapsto> JArr []])
        (\<lambda>_. ret ())
        ((world0 [unlabelled_item])\<lparr>engine := [JStr ''s1''],
           sent := sent (world0 [unlabelled_item] :: json list world) @
                   [PostSession (JStr ''s1'')]\<rparr>)"
    by blast
  then have a: "sent (snd (reconcile ?env ?p (world0 [unlabelled_item]))) =
     [PostSession (JStr ''s1''), PostSession (JStr ''s1''),
      PutRefine (JStr ''s1'') (JArr []) (JArr [])]"
    by (simp add: private_refine_def act_defs http_defs spec_env_def example_env_def world0_def
        spec_post_session_def requests_post_def response_ok_def)
  from reconcile_replay_unconditional [where params = ?p, OF sid post2 found2] missing off
  have "results ?env ?p (world0 [bare_item]) =
      (Inl KeyError,
       (world0 [bare_item])\<lparr>engine := [JStr ''s1''],
          sent := sent (world0 [bare_item] :: json list world) @ [PostSession (JStr ''s1'')]\<rparr>)"
    by blast
  then have b: "results ?env ?p (world0 [bare_item]) =
     (Inl KeyError,
      \<lparr>engine = [JStr ''s1''], sent = [PostSession (JStr ''s1'')], items = [bare_item],
       errlog = []\<rparr>)"
    by (simp add: world0_def)
  from a b show ?thesis by blast
qed



end
